theory Spec2Isabelle
  imports Complex_Main "HOL-Library.Word"
begin

section \<open>The updater of electron-updater (AppUpdater.ts, AppImageUpdater.ts)\<close>

text \<open>
  A shallow embedding of the availability decision, the staging gate, the channel setter,
  the single-flight update check and the download executor of
  \<^verbatim>\<open>packages/electron-updater/src/AppUpdater.ts\<close>, and of the download task of
  \<^verbatim>\<open>AppImageUpdater.ts\<close>. Methods of the class take the updater (\<open>this\<close>) as an
  argument and return it updated; a method that can throw, or an async method that can
  reject, returns \<open>Inl\<close> of the error.
\<close>

subsection \<open>JavaScript values, errors, log and events\<close>

text \<open>
  The values a field of the manifest or an argument of a setter can hold at run time.
  \<open>JSNumber n\<close> is an integral number, given by the integer \<open>n\<close> that the digits of
  its \<open>ToString\<close> write; numbers with a fraction are not modelled. A string is a list of
  code units below 256, so of the white space of JavaScript only the characters up to
  \<open>U+00A0\<close> can occur in one.
\<close>

datatype js_value = JSNull | JSUndefined | JSBool bool | JSNumber int | JSString string

text \<open>\<^verbatim>\<open>x == null\<close> holds of \<open>null\<close> and \<open>undefined\<close>.\<close>

fun is_nullish :: "js_value \<Rightarrow> bool" where
  "is_nullish JSNull = True"
| "is_nullish JSUndefined = True"
| "is_nullish _ = False"

text \<open>\<^verbatim>\<open>typeof x === "string"\<close>.\<close>

fun typeof_string :: "js_value \<Rightarrow> bool" where
  "typeof_string (JSString _) = True"
| "typeof_string _ = False"

text \<open>
  Errors. \<open>newError message code\<close> of builder-util-runtime makes an \<open>Error\<close> with a
  \<open>code\<close> property; the text interpolated into a message is left out of the message.
  \<open>SystemError\<close> is a failure of a file-system call with its \<open>code\<close> (\<open>ENOENT\<close>),
  \<open>RangeError\<close> what \<open>Buffer.readUInt32BE\<close> throws out of range.
\<close>

datatype error =
    UpdaterError string string
  | CancellationError
  | Error string
  | SystemError string
  | RangeError

definition newError :: "string \<Rightarrow> string \<Rightarrow> error" where
  "newError message code = UpdaterError message code"

fun error_code :: "error \<Rightarrow> string option" where
  "error_code (UpdaterError _ c) = Some c"
| "error_code (SystemError c) = Some c"
| "error_code _ = None"

text \<open>\<^verbatim>\<open>e instanceof CancellationError\<close>.\<close>

fun is_CancellationError :: "error \<Rightarrow> bool" where
  "is_CancellationError CancellationError = True"
| "is_CancellationError _ = False"

datatype log_level = Info | Warn | Err | Debug

type_synonym log_entry = "log_level \<times> string"

text \<open>The remote manifest entry, with the fields the updater reads here.\<close>

record UpdateInfo =
  version :: string
  stagingPercentage :: js_value

text \<open>
  The result of asking the provider, with the staging user id read for the request. The
  provider itself takes no part in what follows.
\<close>

record UpdateInfoAndProvider =
  info :: UpdateInfo
  stagingUserId :: "string option"

text \<open>What the \<open>EventEmitter\<close> has emitted, in order.\<close>

datatype event =
    EvError error
  | EvCheckingForUpdate
  | EvUpdateNotAvailable UpdateInfo
  | EvUpdateAvailable UpdateInfo
  | EvUpdateCancelled UpdateInfo
  | EvUpdateDownloaded UpdateInfo string
  | EvDownloadProgress

subsection \<open>The updater's fields\<close>

datatype use_semver = SemverTrue | SemverFalse | SemverLoose

text \<open>
  A file is its content and its mode; the file system maps the paths of the files that
  exist. Directories are not modelled: a file is in a directory when its path starts with
  the directory's path and a slash.
\<close>

type_synonym file_entry = "string \<times> nat"

text \<open>
  The updater's fields and, with them, the part of the world its methods act on.
  \<open>channel'\<close> is the private field \<^verbatim>\<open>_channel\<close>, \<open>logger\<close> what \<^verbatim>\<open>_logger\<close> has been
  given, \<open>emitted\<close> the events emitted. A promise is named by a number (its identity as
  an object); \<open>promises_created\<close> counts the promises of \<open>checkForUpdates\<close> made so
  far and \<open>doCheckForUpdates_calls\<close> the calls of \<open>doCheckForUpdates\<close>, each of which
  asks the provider for the latest version at most once. A \<open>DownloadedUpdateHelper\<close> is
  named by the cache directory it was made with, which it never changes;
  \<open>helper_file\<close> is the downloaded file the helper holds. \<open>files\<close> is the file system.
\<close>

record app_updater =
  allowDowngrade :: bool
  useSemver :: use_semver
  currentVersionString :: string
  channel' :: js_value
  checkForUpdatesPromise :: "nat option"
  promises_created :: nat
  doCheckForUpdates_calls :: nat
  updateInfoAndProvider :: "UpdateInfoAndProvider option"
  downloadedUpdateHelper :: "string option"
  helper_file :: "string option"
  files :: "string \<rightharpoonup> file_entry"
  logger :: "log_entry list"
  emitted :: "event list"

text \<open>The fields as the class initialises them, for an app of version \<open>v\<close>.\<close>

definition new_AppUpdater :: "string \<Rightarrow> app_updater" where
  "new_AppUpdater v =
     \<lparr>allowDowngrade = False, useSemver = SemverTrue, currentVersionString = v,
      channel' = JSNull, checkForUpdatesPromise = None, promises_created = 0,
      doCheckForUpdates_calls = 0, updateInfoAndProvider = None,
      downloadedUpdateHelper = None, helper_file = None, files = Map.empty,
      logger = [], emitted = []\<rparr>"

definition log_to :: "log_level \<Rightarrow> string \<Rightarrow> app_updater \<Rightarrow> app_updater" where
  "log_to lvl msg this = this\<lparr>logger := logger this @ [(lvl, msg)]\<rparr>"

definition emit :: "event \<Rightarrow> app_updater \<Rightarrow> app_updater" where
  "emit ev this = this\<lparr>emitted := emitted this @ [ev]\<rparr>"

subsection \<open>The channel setter\<close>

text \<open>
  \<^verbatim>\<open>set channel(value)\<close>: the argument is checked only when \<^verbatim>\<open>this._channel != null\<close>;
  then the value is stored and \<open>allowDowngrade\<close> set.
\<close>

definition set_channel :: "js_value \<Rightarrow> app_updater \<Rightarrow> error + app_updater" where
  "set_channel v this =
     (let thrown =
        (if \<not> is_nullish (channel' this) then
           (case v of
              JSString s \<Rightarrow>
                if length s = 0
                then Some (newError ''Channel must be not an empty string'' ''ERR_UPDATER_INVALID_CHANNEL'')
                else None
            | _ \<Rightarrow> Some (newError ''Channel must be a string, but got: '' ''ERR_UPDATER_INVALID_CHANNEL''))
         else None)
      in case thrown of
           Some e \<Rightarrow> Inl e
         | None \<Rightarrow> Inr (this\<lparr>channel' := v, allowDowngrade := True\<rparr>))"

subsection \<open>Semantic versions\<close>

text \<open>
  The package \<open>semver\<close> is not part of the repository: its parser and its comparison are
  parameters. \<open>parseVersion lib s loose\<close> is \<^verbatim>\<open>parse(s, loose ? {loose: true} : undefined)\<close>,
  \<open>None\<close> for \<open>null\<close>; \<open>eq\<close>, \<open>gt\<close> and \<open>lt\<close> of the package are its \<open>compare\<close>
  against zero.
\<close>

record 'v semver_lib =
  parseVersion :: "string \<Rightarrow> bool \<Rightarrow> 'v option"
  compare :: "'v \<Rightarrow> 'v \<Rightarrow> int"

definition isVersionsEqual :: "'v semver_lib \<Rightarrow> 'v \<Rightarrow> 'v \<Rightarrow> bool" where
  "isVersionsEqual lib a b = (compare lib a b = 0)"

definition isVersionGreaterThan :: "'v semver_lib \<Rightarrow> 'v \<Rightarrow> 'v \<Rightarrow> bool" where
  "isVersionGreaterThan lib a b = (compare lib a b > 0)"

definition isVersionLessThan :: "'v semver_lib \<Rightarrow> 'v \<Rightarrow> 'v \<Rightarrow> bool" where
  "isVersionLessThan lib a b = (compare lib a b < 0)"

text \<open>The getter \<open>currentVersion\<close>.\<close>

definition currentVersion :: "'v semver_lib \<Rightarrow> app_updater \<Rightarrow> 'v option" where
  "currentVersion lib this =
     (if useSemver this = SemverFalse then None
      else parseVersion lib (currentVersionString this) (useSemver this = SemverLoose))"

subsection \<open>The staging gate\<close>

text \<open>
  \<open>parseInt(x, 10)\<close>, \<open>None\<close> for \<open>NaN\<close>: the argument is turned into a string, leading
  white space is skipped, a sign is read, then the longest run of decimal digits; no
  digit gives \<open>NaN\<close>. An integral number of magnitude below \<open>10^21\<close> prints as its decimal
  numeral and parses back to itself. From \<open>10^21\<close> on \<open>ToString\<close> writes the exponent
  form, one digit before the point or the \<open>e\<close> (\<open>1e+21\<close>, \<open>1.5e+22\<close>), and \<open>parseInt\<close> reads
  that one digit with the sign.
\<close>

definition is_digit :: "char \<Rightarrow> bool" where
  "is_digit c = (48 \<le> (of_char c :: nat) \<and> (of_char c :: nat) \<le> 57)"

definition is_white :: "char \<Rightarrow> bool" where
  "is_white c = (c = CHR '' '' \<or> c = CHR 0x09 \<or> c = CHR 0x0A \<or> c = CHR 0x0B \<or> c = CHR 0x0C \<or> c = CHR 0x0D
                  \<or> c = CHR 0xA0)"

definition digits_value :: "string \<Rightarrow> int" where
  "digits_value ds = foldl (\<lambda>acc c. acc * 10 + (int (of_char c :: nat) - 48)) 0 ds"

definition parseInt_string :: "string \<Rightarrow> int option" where
  "parseInt_string s =
     (let t = dropWhile is_white s;
          neg = (t \<noteq> [] \<and> hd t = CHR ''-'');
          u = (if t \<noteq> [] \<and> (hd t = CHR ''-'' \<or> hd t = CHR ''+'') then tl t else t);
          ds = takeWhile is_digit u
      in if ds = [] then None
         else Some (if neg then - digits_value ds else digits_value ds))"

function leading_digit :: "int \<Rightarrow> int" where
  "leading_digit m = (if m < 10 then m else leading_digit (m div 10))"
  by pat_completeness auto
termination
  by (relation "measure nat") auto

declare leading_digit.simps [simp del]

fun parseInt :: "js_value \<Rightarrow> int option" where
  "parseInt (JSString s) = parseInt_string s"
| "parseInt (JSNumber n) =
     (if \<bar>n\<bar> < 10 ^ 21 then Some n else Some (sgn n * leading_digit \<bar>n\<bar>))"
| "parseInt (JSBool _) = None"
| "parseInt JSNull = None"
| "parseInt JSUndefined = None"

text \<open>
  \<open>Buffer.readUInt32BE(offset)\<close>: four bytes, the first the most significant; a
  \<open>RangeError\<close> when they are not all inside the buffer.
\<close>

definition readUInt32BE :: "8 word list \<Rightarrow> nat \<Rightarrow> error + nat" where
  "readUInt32BE buf offset =
     (if offset + 4 \<le> length buf
      then Inr (unat (buf ! offset) * 2 ^ 24 + unat (buf ! (offset + 1)) * 2 ^ 16
                + unat (buf ! (offset + 2)) * 2 ^ 8 + unat (buf ! (offset + 3)))
      else Inl RangeError)"

text \<open>
  \<open>isStagingMatch\<close>. \<open>UUID.parse\<close> of builder-util-runtime (its file is not among the
  sources) is the parameter \<open>UUID_parse\<close>, from the text of a UUID to its bytes. The two
  quotients are doubles in the source and exact rationals here; the comparison is the
  same, since for an integer percentage two different quotients \<open>val / 0xffffffff\<close> and
  \<open>p / 100\<close> are at least \<open>1 / (100 * 0xffffffff)\<close> apart, far more than the rounding
  of a double near them, and equal quotients round to the same double.
\<close>

definition isStagingMatch ::
  "(string \<Rightarrow> 8 word list) \<Rightarrow> UpdateInfo \<Rightarrow> string option \<Rightarrow> app_updater
     \<Rightarrow> (error + bool) \<times> app_updater" where
  "isStagingMatch UUID_parse updateInfo stagingUserId' this =
     (let rawStagingPercentage = stagingPercentage updateInfo in
      if is_nullish rawStagingPercentage then (Inr True, this)
      else
        case parseInt rawStagingPercentage of
          None \<Rightarrow> (Inr True, log_to Warn ''Staging percentage is NaN: '' this)
        | Some p \<Rightarrow>
            (case stagingUserId' of
               None \<Rightarrow> (Inr True, log_to Warn ''Staging user ID is not supported, allowing the update'' this)
             | Some uid \<Rightarrow>
                 (let stagingPercentage' = (of_int p :: rat) / 100 in
                  case readUInt32BE (UUID_parse uid) 12 of
                    Inl e \<Rightarrow> (Inl e, this)
                  | Inr val \<Rightarrow>
                      (let percentage = (of_nat val :: rat) / 0xffffffff
                       in (Inr (percentage < stagingPercentage'),
                           log_to Info ''Staging percentage: , percentage: , user id: '' this)))))"

subsection \<open>The availability decision\<close>

definition isUpdateAvailable ::
  "'v semver_lib \<Rightarrow> (string \<Rightarrow> 8 word list) \<Rightarrow> UpdateInfoAndProvider \<Rightarrow> app_updater
     \<Rightarrow> (error + bool) \<times> app_updater" where
  "isUpdateAvailable lib UUID_parse updateInfoAndProvider' this =
     (let updateInfo = info updateInfoAndProvider' in
      if useSemver this = SemverFalse
      then (Inr (version updateInfo \<noteq> currentVersionString this), this)
      else
        case parseVersion lib (version updateInfo) (useSemver this = SemverLoose) of
          None \<Rightarrow>
            (Inl (newError
               ''This file could not be downloaded, or the latest version (from update server) does not have a valid semver version: ''
               ''ERR_UPDATER_INVALID_VERSION''), this)
        | Some latestVersion \<Rightarrow>
            (case currentVersion lib this of
               None \<Rightarrow>
                 (Inl (newError ''App version is not a valid semver version: '' ''ERR_UPDATER_INVALID_VERSION''), this)
             | Some currentVersion' \<Rightarrow>
                 if isVersionsEqual lib latestVersion currentVersion' then (Inr False, this)
                 else
                   (case isStagingMatch UUID_parse updateInfo (stagingUserId updateInfoAndProvider') this of
                      (Inl e, this') \<Rightarrow> (Inl e, this')
                    | (Inr isStagingMatch', this') \<Rightarrow>
                        if \<not> isStagingMatch' then (Inr False, this')
                        else
                          (let isLatestVersionNewer = isVersionGreaterThan lib latestVersion currentVersion';
                               isLatestVersionOlder = isVersionLessThan lib latestVersion currentVersion'
                           in if isLatestVersionNewer then (Inr True, this')
                              else (Inr (allowDowngrade this' \<and> isLatestVersionOlder), this')))))"

text \<open>
  The fraction of the staging gate in the words of the specification: the last four
  bytes of the UUID read as a big-endian 32-bit integer, divided by \<open>0xffffffff\<close>.
\<close>

definition last4_be :: "8 word list \<Rightarrow> nat" where
  "last4_be buf = foldl (\<lambda>acc b. acc * 256 + unat b) 0 (drop (length buf - 4) buf)"

definition staging_fraction :: "8 word list \<Rightarrow> rat" where
  "staging_fraction buf = of_nat (last4_be buf) / 0xffffffff"

subsection \<open>A UUID parser and a version parser to run the decision on\<close>

text \<open>Hexadecimal digits, and the bytes that a string of them writes, two digits a byte.\<close>

definition hex_value :: "char \<Rightarrow> nat" where
  "hex_value c =
     (let n = (of_char c :: nat) in
      if 48 \<le> n \<and> n \<le> 57 then n - 48
      else if 97 \<le> n \<and> n \<le> 102 then n - 87
      else if 65 \<le> n \<and> n \<le> 70 then n - 55
      else 0)"

fun hex_bytes :: "string \<Rightarrow> 8 word list" where
  "hex_bytes (a # b # r) = of_nat (16 * hex_value a + hex_value b) # hex_bytes r"
| "hex_bytes _ = []"

text \<open>
  Modelled from the spec: \<open>UUID.parse\<close> of builder-util-runtime (uuid.ts, not among the
  sources). The specification speaks of the bytes of the persisted UUID; these are the
  sixteen bytes that the 32 hexadecimal digits of its text write. It is used only to run
  the gate on concrete UUIDs; the theorems about the gate hold for every parser that
  returns sixteen bytes.
\<close>

definition UUID_parse_hex :: "string \<Rightarrow> 8 word list" where
  "UUID_parse_hex s = hex_bytes (filter (\<lambda>c. c \<noteq> CHR ''-'') s)"

text \<open>
  A stand-in for the package \<open>semver\<close> on versions written \<open>major.minor.patch\<close>, to
  run the decision on concrete versions.
\<close>

fun split_on :: "char \<Rightarrow> string \<Rightarrow> string list" where
  "split_on c [] = [[]]"
| "split_on c (x # xs) =
     (if x = c then [] # split_on c xs
      else (case split_on c xs of y # ys \<Rightarrow> (x # y) # ys | [] \<Rightarrow> [[x]]))"

definition parse_plain :: "string \<Rightarrow> (int \<times> int \<times> int) option" where
  "parse_plain s =
     (case split_on (CHR ''.'') s of
        [a, b, c] \<Rightarrow>
          if a \<noteq> [] \<and> b \<noteq> [] \<and> c \<noteq> [] \<and> list_all is_digit (a @ b @ c)
          then Some (digits_value a, digits_value b, digits_value c) else None
      | _ \<Rightarrow> None)"

fun compare_plain :: "int \<times> int \<times> int \<Rightarrow> int \<times> int \<times> int \<Rightarrow> int" where
  "compare_plain (a, b, c) (a', b', c') =
     (if a \<noteq> a' then (if a < a' then - 1 else 1)
      else if b \<noteq> b' then (if b < b' then - 1 else 1)
      else if c \<noteq> c' then (if c < c' then - 1 else 1)
      else 0)"

definition plain_semver :: "(int \<times> int \<times> int) semver_lib" where
  "plain_semver = \<lparr>parseVersion = (\<lambda>s loose. parse_plain s), compare = compare_plain\<rparr>"

subsection \<open>The single-flight update check\<close>

text \<open>
  \<open>checkForUpdates\<close> returns a promise, here its number. With a promise memoized it
  logs and returns that promise. Otherwise it calls \<open>doCheckForUpdates\<close>, chains the two
  handlers on the result, memoizes the chained promise and returns it.
\<close>

definition checkForUpdates :: "app_updater \<Rightarrow> nat \<times> app_updater" where
  "checkForUpdates this =
     (case checkForUpdatesPromise this of
        Some checkForUpdatesPromise' \<Rightarrow>
          (checkForUpdatesPromise', log_to Info ''Checking for update (already in progress)'' this)
      | None \<Rightarrow>
          (let this1 = log_to Info ''Checking for update'' this;
               this2 = this1\<lparr>doCheckForUpdates_calls := doCheckForUpdates_calls this1 + 1\<rparr>;
               checkForUpdatesPromise' = promises_created this2;
               this3 = this2\<lparr>promises_created := promises_created this2 + 1\<rparr>
           in (checkForUpdatesPromise', this3\<lparr>checkForUpdatesPromise := Some checkForUpdatesPromise'\<rparr>)))"

text \<open>
  The handlers chained on \<open>doCheckForUpdates()\<close>, run when it settles with \<open>outcome\<close>:
  both call \<open>nullizePromise\<close>; the second emits \<open>error\<close> and rethrows. The result is how
  the promise that \<open>checkForUpdates\<close> returned settles.
\<close>

definition checkForUpdates_settled :: "error + 'r \<Rightarrow> app_updater \<Rightarrow> (error + 'r) \<times> app_updater" where
  "checkForUpdates_settled outcome this =
     (case outcome of
        Inr it \<Rightarrow> (Inr it, this\<lparr>checkForUpdatesPromise := None\<rparr>)
      | Inl e \<Rightarrow> (Inl e, emit (EvError e) (this\<lparr>checkForUpdatesPromise := None\<rparr>)))"

text \<open>\<open>n\<close> calls of \<open>checkForUpdates\<close> in a row, nothing settling in between.\<close>

fun checkForUpdates_times :: "nat \<Rightarrow> app_updater \<Rightarrow> nat list \<times> app_updater" where
  "checkForUpdates_times 0 this = ([], this)"
| "checkForUpdates_times (Suc n) this =
     (case checkForUpdates this of
        (p, this1) \<Rightarrow>
          (case checkForUpdates_times n this1 of (ps, this2) \<Rightarrow> (p # ps, this2)))"

subsection \<open>Paths and the file system\<close>

text \<open>
  \<open>path.join\<close> of a directory and a name, \<open>path.posix.basename\<close>, \<open>path.extname\<close> and
  \<open>String.endsWith\<close>, for paths that need no normalisation and do not end in a slash.
\<close>

definition path_join :: "string \<Rightarrow> string \<Rightarrow> string" where
  "path_join a b = a @ ''/'' @ b"

definition in_dir :: "string \<Rightarrow> string \<Rightarrow> bool" where
  "in_dir dir p = (take (length dir + 1) p = dir @ ''/'')"

definition posix_basename :: "string \<Rightarrow> string" where
  "posix_basename p = rev (takeWhile (\<lambda>c. c \<noteq> CHR ''/'') (rev p))"

definition endsWith :: "string \<Rightarrow> string \<Rightarrow> bool" where
  "endsWith s suffix = (length suffix \<le> length s \<and> drop (length s - length suffix) s = suffix)"

definition path_extname :: "string \<Rightarrow> string" where
  "path_extname p =
     (let b = posix_basename p in
      if b = ''..'' \<or> CHR ''.'' \<notin> set (tl b) then []
      else CHR ''.'' # rev (takeWhile (\<lambda>c. c \<noteq> CHR ''.'') (rev b)))"

text \<open>
  \<open>rename\<close>, \<open>unlink\<close> and \<open>chmod\<close> of \<open>fs/promises\<close> reject with \<open>ENOENT\<close> when the
  file does not exist; other failures of the file system are not modelled.
\<close>

definition rename :: "string \<Rightarrow> string \<Rightarrow> app_updater \<Rightarrow> error option \<times> app_updater" where
  "rename oldPath newPath this =
     (case files this oldPath of
        None \<Rightarrow> (Some (SystemError ''ENOENT''), this)
      | Some f \<Rightarrow> (None, this\<lparr>files := ((files this)(oldPath := None))(newPath \<mapsto> f)\<rparr>))"

definition unlink :: "string \<Rightarrow> app_updater \<Rightarrow> error option \<times> app_updater" where
  "unlink p this =
     (case files this p of
        None \<Rightarrow> (Some (SystemError ''ENOENT''), this)
      | Some f \<Rightarrow> (None, this\<lparr>files := (files this)(p := None)\<rparr>))"

definition chmod :: "string \<Rightarrow> nat \<Rightarrow> app_updater \<Rightarrow> error option \<times> app_updater" where
  "chmod p m this =
     (case files this p of
        None \<Rightarrow> (Some (SystemError ''ENOENT''), this)
      | Some f \<Rightarrow> (None, this\<lparr>files := (files this)(p \<mapsto> (fst f, m))\<rparr>))"

definition emptyDir :: "string \<Rightarrow> (string \<rightharpoonup> file_entry) \<Rightarrow> (string \<rightharpoonup> file_entry)" where
  "emptyDir dir fs = (\<lambda>p. if in_dir dir p then None else fs p)"

subsection \<open>The download cache\<close>

text \<open>
  The class \<open>DownloadedUpdateHelper\<close> and the function \<open>createTempUpdateFile\<close> are in
  DownloadedUpdateHelper.ts, which is not among the sources. The four definitions below
  follow what the specification says of them: the helper owns a cache directory, which
  holds the update file in progress or completed and a small sidecar record.
\<close>

text \<open>
  Modelled from the spec: \<open>cacheDirForPendingUpdate\<close> of \<open>DownloadedUpdateHelper\<close>, the
  directory of the helper's cache that holds the pending update.
\<close>

definition cacheDirForPendingUpdate :: "string \<Rightarrow> string" where
  "cacheDirForPendingUpdate cacheDir = path_join cacheDir ''pending''"

text \<open>
  Modelled from the spec: \<open>clear()\<close> of \<open>DownloadedUpdateHelper\<close>, which deletes the
  cache directory contents; the helper forgets its downloaded file.
\<close>

definition clear :: "string \<Rightarrow> app_updater \<Rightarrow> error option \<times> app_updater" where
  "clear helper this =
     (None, this\<lparr>helper_file := None,
                 files := emptyDir (cacheDirForPendingUpdate helper) (files this)\<rparr>)"

text \<open>
  Modelled from the spec: \<open>setDownloadedFile\<close> of \<open>DownloadedUpdateHelper\<close>, which makes
  the file the helper's downloaded file and persists the sidecar record in the cache
  directory only when \<open>isSaveCache\<close> is true.
\<close>

definition setDownloadedFile ::
  "string \<Rightarrow> string \<Rightarrow> string option \<Rightarrow> UpdateInfo \<Rightarrow> string \<Rightarrow> bool \<Rightarrow> app_updater \<Rightarrow> app_updater" where
  "setDownloadedFile helper downloadedFile packageFile versionInfo updateFileName isSaveCache this =
     (let this1 = this\<lparr>helper_file := Some downloadedFile\<rparr> in
      if isSaveCache
      then this1\<lparr>files := (files this1)
                  (path_join (cacheDirForPendingUpdate helper) ''update-info.json'' \<mapsto> (updateFileName, 420))\<rparr>
      else this1)"

text \<open>
  Modelled from the spec: \<open>createTempUpdateFile\<close> of DownloadedUpdateHelper.ts, which
  gives the path of the temp file, in the cache directory, with no file left at it.
\<close>

definition createTempUpdateFile :: "string \<Rightarrow> string \<Rightarrow> app_updater \<Rightarrow> string \<times> app_updater" where
  "createTempUpdateFile name cacheDir this =
     (path_join cacheDir name, this\<lparr>files := (files this)(path_join cacheDir name := None)\<rparr>)"

subsection \<open>The download executor\<close>

text \<open>
  What the updater is given from outside. \<open>configOnDisk\<close> is how the lazy value settles,
  read down to \<open>updaterCacheDirName\<close> (\<open>None\<close> for a \<open>null\<close> configuration or a missing
  name). \<open>validateDownloadedPath\<close> of the helper is a parameter: from the helper, the
  expected path and the update to the cached file or \<open>null\<close>. \<open>differential_download\<close>
  is \<open>new FileWithEmbeddedBlockMapDifferentialDownloader(...).download()\<close> from the old
  file to the new one, \<open>httpExecutor_download\<close> the full download to a destination; both
  say how they settle and leave the world as they changed it.
\<close>

record env =
  app_name :: string
  app_baseCachePath :: string
  configOnDisk :: "error + string option"
  mkdir :: "string \<Rightarrow> error option"
  validateDownloadedPath :: "string \<Rightarrow> string \<Rightarrow> UpdateInfo \<Rightarrow> app_updater \<Rightarrow> string option \<times> app_updater"
  process_platform :: string
  APPIMAGE :: "string option"
  differential_download :: "string \<Rightarrow> string \<Rightarrow> app_updater \<Rightarrow> error option \<times> app_updater"
  httpExecutor_download :: "string \<Rightarrow> app_updater \<Rightarrow> error option \<times> app_updater"

text \<open>
  \<open>ResolvedUpdateFileInfo\<close>: the path of the file's URL as \<open>decodeURIComponent\<close>
  returns it, and the path of its package, when it has one. \<open>DownloadExecutorTask\<close>: the task is given the destination
  file and the package file, \<open>done'\<close> (the field \<open>done\<close>) the update and the downloaded
  file. The download options and the request headers are passed through to the task and
  are left out.
\<close>

record ResolvedUpdateFileInfo =
  url_pathname :: string
  packageInfo_path :: "string option"

record DownloadExecutorTask =
  fileExtension :: string
  fileInfo :: ResolvedUpdateFileInfo
  t_updateInfoAndProvider :: UpdateInfoAndProvider
  task :: "string \<Rightarrow> string option \<Rightarrow> app_updater \<Rightarrow> error option \<times> app_updater"
  done' :: "UpdateInfo \<Rightarrow> string \<Rightarrow> app_updater \<Rightarrow> error option \<times> app_updater"

text \<open>
  What a run of the executor does, in order: its awaited calls with what they returned,
  and the events it emits itself.
\<close>

datatype call =
    Call_mkdir string
  | Call_validateDownloadedPath string "string option"
  | Call_createTempUpdateFile string
  | Call_task string "error option"
  | Call_rename string string "error option"
  | Call_clear
  | Call_unlink string
  | Call_setDownloadedFile string bool
  | Call_done string "error option"
  | Emitted event

definition getCacheUpdateFileName :: "DownloadExecutorTask \<Rightarrow> string" where
  "getCacheUpdateFileName taskOptions =
     (let urlPath = url_pathname (fileInfo taskOptions) in
      if endsWith urlPath (''.'' @ fileExtension taskOptions) then posix_basename urlPath
      else ''update.'' @ fileExtension taskOptions)"

text \<open>
  \<open>getOrCreateDownloadHelper\<close>; the logger is taken to have a \<open>debug\<close> method, as
  \<open>console\<close> has.
\<close>

definition getOrCreateDownloadHelper :: "env \<Rightarrow> app_updater \<Rightarrow> (error + string) \<times> app_updater" where
  "getOrCreateDownloadHelper env this =
     (case downloadedUpdateHelper this of
        Some result \<Rightarrow> (Inr result, this)
      | None \<Rightarrow>
          (case configOnDisk env of
             Inl e \<Rightarrow> (Inl e, this)
           | Inr dirName \<Rightarrow>
               (let this1 =
                      (if dirName = None
                       then log_to Err ''updaterCacheDirName is not specified in app-update.yml Was app build using at least electron-builder 20.34.0?'' this
                       else this);
                    cacheDir = path_join (app_baseCachePath env)
                      (case dirName of
                         Some d \<Rightarrow> if d \<noteq> [] then d else app_name env
                       | None \<Rightarrow> app_name env);
                    this2 = log_to Debug ''updater cache dir: '' this1
                in (Inr cacheDir, this2\<lparr>downloadedUpdateHelper := Some cacheDir\<rparr>))))"

text \<open>\<open>removeFileIfAny\<close>: both calls swallow their errors.\<close>

definition removeFileIfAny :: "string \<Rightarrow> string \<Rightarrow> app_updater \<Rightarrow> call list \<times> app_updater" where
  "removeFileIfAny helper updateFile this =
     (let this1 = snd (clear helper this);
          this2 = snd (unlink updateFile this1)
      in ([Call_clear, Call_unlink updateFile], this2))"

text \<open>The closure \<open>done\<close> of \<open>executeDownload\<close>.\<close>

definition executeDownload_done ::
  "DownloadExecutorTask \<Rightarrow> string \<Rightarrow> string \<Rightarrow> string option \<Rightarrow> string \<Rightarrow> bool \<Rightarrow> app_updater
     \<Rightarrow> (error + string list) \<times> call list \<times> app_updater" where
  "executeDownload_done taskOptions helper updateFile packageFile updateFileName isSaveCache this =
     (let updateInfo = info (t_updateInfoAndProvider taskOptions);
          this1 = setDownloadedFile helper updateFile packageFile updateInfo updateFileName isSaveCache this
      in case done' taskOptions updateInfo updateFile this1 of
           (Some e, this2) \<Rightarrow>
             (Inl e, [Call_setDownloadedFile updateFile isSaveCache, Call_done updateFile (Some e)], this2)
         | (None, this2) \<Rightarrow>
             (Inr (case packageFile of None \<Rightarrow> [updateFile] | Some p \<Rightarrow> [updateFile, p]),
              [Call_setDownloadedFile updateFile isSaveCache, Call_done updateFile None], this2))"

text \<open>The \<open>catch\<close> block of \<open>executeDownload\<close>.\<close>

definition executeDownload_catch ::
  "DownloadExecutorTask \<Rightarrow> string \<Rightarrow> string \<Rightarrow> error \<Rightarrow> app_updater
     \<Rightarrow> (error + string list) \<times> call list \<times> app_updater" where
  "executeDownload_catch taskOptions helper updateFile e this =
     (let updateInfo = info (t_updateInfoAndProvider taskOptions) in
      case removeFileIfAny helper updateFile this of
        (tr, this1) \<Rightarrow>
          if is_CancellationError e
          then (Inl e, tr @ [Emitted (EvUpdateCancelled updateInfo)],
                emit (EvUpdateCancelled updateInfo) (log_to Info ''cancelled'' this1))
          else (Inl e, tr, this1))"

definition executeDownload ::
  "env \<Rightarrow> DownloadExecutorTask \<Rightarrow> app_updater \<Rightarrow> (error + string list) \<times> call list \<times> app_updater" where
  "executeDownload env taskOptions this =
     (let updateInfo = info (t_updateInfoAndProvider taskOptions);
          version' = version updateInfo;
          packageInfo = packageInfo_path (fileInfo taskOptions)
      in
      case getOrCreateDownloadHelper env this of
        (Inl e, this1) \<Rightarrow> (Inl e, [], this1)
      | (Inr helper, this1) \<Rightarrow>
          (let cacheDir = cacheDirForPendingUpdate helper in
           case mkdir env cacheDir of
             Some e \<Rightarrow> (Inl e, [Call_mkdir cacheDir], this1)
           | None \<Rightarrow>
               (let updateFileName = getCacheUpdateFileName taskOptions;
                    updateFile = path_join cacheDir updateFileName;
                    packageFile =
                      (case packageInfo of
                         None \<Rightarrow> None
                       | Some p \<Rightarrow>
                           Some (path_join cacheDir
                             (''package-'' @ version' @ (if path_extname p \<noteq> [] then path_extname p else ''.7z''))))
                in
                case validateDownloadedPath env helper updateFile updateInfo this1 of
                  (Some cachedUpdateFile, this2) \<Rightarrow>
                    (case executeDownload_done taskOptions helper cachedUpdateFile packageFile
                            updateFileName False this2 of
                       (r, tr, this3) \<Rightarrow>
                         (r, [Call_mkdir cacheDir,
                              Call_validateDownloadedPath updateFile (Some cachedUpdateFile)] @ tr, this3))
                | (None, this2) \<Rightarrow>
                    (case createTempUpdateFile (''temp-'' @ updateFileName) cacheDir this2 of
                       (tempUpdateFile, this3) \<Rightarrow>
                         (let pre = [Call_mkdir cacheDir, Call_validateDownloadedPath updateFile None,
                                     Call_createTempUpdateFile tempUpdateFile]
                          in
                          case task taskOptions tempUpdateFile packageFile this3 of
                            (Some e, this4) \<Rightarrow>
                              (case executeDownload_catch taskOptions helper updateFile e this4 of
                                 (r, tr, this5) \<Rightarrow>
                                   (r, pre @ [Call_task tempUpdateFile (Some e)] @ tr, this5))
                          | (None, this4) \<Rightarrow>
                              (case rename tempUpdateFile updateFile this4 of
                                 (Some e, this5) \<Rightarrow>
                                   (case executeDownload_catch taskOptions helper updateFile e this5 of
                                      (r, tr, this6) \<Rightarrow>
                                        (r, pre @ [Call_task tempUpdateFile None,
                                                   Call_rename tempUpdateFile updateFile (Some e)] @ tr, this6))
                               | (None, this5) \<Rightarrow>
                                   (let this6 = log_to Info ''New version  has been downloaded to '' this5 in
                                    case executeDownload_done taskOptions helper updateFile packageFile
                                           updateFileName True this6 of
                                      (r, tr, this7) \<Rightarrow>
                                        (r, pre @ [Call_task tempUpdateFile None,
                                                   Call_rename tempUpdateFile updateFile None] @ tr, this7))))))))"

text \<open>
  The paths that \<open>executeDownload\<close> computes for a helper and a task: its constants
  \<open>updateFile\<close> and \<open>packageFile\<close>, and the path it asks \<open>createTempUpdateFile\<close> for.
\<close>

definition updateFile_path :: "string \<Rightarrow> DownloadExecutorTask \<Rightarrow> string" where
  "updateFile_path helper taskOptions =
     path_join (cacheDirForPendingUpdate helper) (getCacheUpdateFileName taskOptions)"

definition tempUpdateFile_path :: "string \<Rightarrow> DownloadExecutorTask \<Rightarrow> string" where
  "tempUpdateFile_path helper taskOptions =
     path_join (cacheDirForPendingUpdate helper) (''temp-'' @ getCacheUpdateFileName taskOptions)"

definition packageFile_path :: "string \<Rightarrow> DownloadExecutorTask \<Rightarrow> string option" where
  "packageFile_path helper taskOptions =
     (case packageInfo_path (fileInfo taskOptions) of
        None \<Rightarrow> None
      | Some p \<Rightarrow>
          Some (path_join (cacheDirForPendingUpdate helper)
            (''package-'' @ version (info (t_updateInfoAndProvider taskOptions))
               @ (if path_extname p \<noteq> [] then path_extname p else ''.7z''))))"

subsection \<open>downloadUpdate\<close>

definition dispatchError :: "error \<Rightarrow> app_updater \<Rightarrow> app_updater" where
  "dispatchError e this = emit (EvError e) this"

text \<open>
  \<open>errorHandler\<close> of \<open>downloadUpdate\<close>. Listeners are not modelled, so \<open>dispatchError\<close>
  does not throw and the inner \<open>catch\<close> has no case.
\<close>

definition errorHandler :: "error \<Rightarrow> app_updater \<Rightarrow> call list \<times> app_updater" where
  "errorHandler e this =
     (if \<not> is_CancellationError e then ([Emitted (EvError e)], dispatchError e this)
      else ([], this))"

text \<open>
  \<open>downloadUpdate\<close>, with the abstract \<open>doDownloadUpdate\<close> as a parameter; a throw of it
  and a rejection of its promise both go through \<open>errorHandler\<close>.
\<close>

definition downloadUpdate ::
  "(UpdateInfoAndProvider \<Rightarrow> app_updater \<Rightarrow> (error + string list) \<times> call list \<times> app_updater)
     \<Rightarrow> app_updater \<Rightarrow> (error + string list) \<times> call list \<times> app_updater" where
  "downloadUpdate doDownloadUpdate this =
     (case updateInfoAndProvider this of
        None \<Rightarrow>
          (let error = Error ''Please check update first''
           in (Inl error, [Emitted (EvError error)], dispatchError error this))
      | Some updateInfoAndProvider' \<Rightarrow>
          (let this1 = log_to Info ''Downloading update from '' this in
           case doDownloadUpdate updateInfoAndProvider' this1 of
             (Inl e, tr, this2) \<Rightarrow>
               (case errorHandler e this2 of (tr', this3) \<Rightarrow> (Inl e, tr @ tr', this3))
           | (Inr r, tr, this2) \<Rightarrow> (Inr r, tr, this2)))"

subsection \<open>The download task of AppImageUpdater\<close>

text \<open>
  The \<open>task\<close> that \<open>AppImageUpdater.doDownloadUpdate\<close> gives to \<open>executeDownload\<close>. An
  error of the differential download is caught and logged, and \<open>isDownloadFull\<close> is set
  to whether the platform is \<open>linux\<close>.
\<close>

definition AppImage_task :: "env \<Rightarrow> string \<Rightarrow> app_updater \<Rightarrow> error option \<times> app_updater" where
  "AppImage_task env updateFile this =
     (case APPIMAGE env of
        None \<Rightarrow> (Some (newError ''APPIMAGE env is not defined'' ''ERR_UPDATER_OLD_FILE_NOT_FOUND''), this)
      | Some oldFile \<Rightarrow>
          (case differential_download env oldFile updateFile this of
             (r, this1) \<Rightarrow>
               (case (case r of
                        None \<Rightarrow> (False, this1)
                      | Some e \<Rightarrow>
                          (process_platform env = ''linux'',
                           log_to Err ''Cannot download differentially, fallback to full download: '' this1)) of
                  (isDownloadFull, this2) \<Rightarrow>
                    (case (if isDownloadFull then httpExecutor_download env updateFile this2
                           else (None, this2)) of
                       (Some e, this3) \<Rightarrow> (Some e, this3)
                     | (None, this3) \<Rightarrow> chmod updateFile 493 this3))))"

text \<open>\<open>done\<close> as \<open>BaseUpdater.executeDownload\<close> sets it: the update-downloaded event.\<close>

definition BaseUpdater_done :: "UpdateInfo \<Rightarrow> string \<Rightarrow> app_updater \<Rightarrow> error option \<times> app_updater" where
  "BaseUpdater_done updateInfo downloadedFile this =
     (None, emit (EvUpdateDownloaded updateInfo downloadedFile) this)"

text \<open>
  \<open>AppImageUpdater.doDownloadUpdate\<close>; \<open>resolved\<close> is the file that \<open>findFile\<close> picks
  among the provider's resolved files.
\<close>

definition AppImage_doDownloadUpdate ::
  "env \<Rightarrow> ResolvedUpdateFileInfo \<Rightarrow> UpdateInfoAndProvider \<Rightarrow> app_updater
     \<Rightarrow> (error + string list) \<times> call list \<times> app_updater" where
  "AppImage_doDownloadUpdate env resolved updateInfoAndProvider' this =
     executeDownload env
       \<lparr>fileExtension = ''AppImage'', fileInfo = resolved,
        t_updateInfoAndProvider = updateInfoAndProvider',
        task = (\<lambda>updateFile packageFile. AppImage_task env updateFile),
        done' = BaseUpdater_done\<rparr> this"

subsection \<open>A world to run the executor in\<close>

text \<open>
  An app named \<open>app\<close> with its cache under \<open>/cache\<close> on the platform \<open>platform\<close>. The
  differential download writes part of the new file and then fails; the full download
  writes the whole file. No download is cached.
\<close>

definition example_env :: "string \<Rightarrow> env" where
  "example_env platform =
     \<lparr>app_name = ''app'', app_baseCachePath = ''/cache'', configOnDisk = Inr (Some ''app-updater''),
      mkdir = (\<lambda>dir. None),
      validateDownloadedPath = (\<lambda>helper updateFile updateInfo this. (None, this)),
      process_platform = platform, APPIMAGE = Some ''/opt/app.AppImage'',
      differential_download =
        (\<lambda>oldFile newFile this.
           (Some (Error ''sha512 checksum mismatch''),
            this\<lparr>files := (files this)(newFile \<mapsto> (''partial'', 420))\<rparr>)),
      httpExecutor_download =
        (\<lambda>destination this. (None, this\<lparr>files := (files this)(destination \<mapsto> (''full'', 420))\<rparr>))\<rparr>"

definition example_update :: UpdateInfoAndProvider where
  "example_update =
     \<lparr>info = \<lparr>version = ''1.1.0'', stagingPercentage = JSUndefined\<rparr>, stagingUserId = None\<rparr>"

definition example_file :: ResolvedUpdateFileInfo where
  "example_file = \<lparr>url_pathname = ''/releases/app-1.1.0.AppImage'', packageInfo_path = None\<rparr>"

definition example_updater :: app_updater where
  "example_updater = (new_AppUpdater ''1.0.0'')\<lparr>updateInfoAndProvider := Some example_update\<rparr>"

text \<open>A task that is cancelled after it has written to its destination.\<close>

definition cancelled_task :: "string \<Rightarrow> string option \<Rightarrow> app_updater \<Rightarrow> error option \<times> app_updater" where
  "cancelled_task destinationFile packageFile this =
     (Some CancellationError, this\<lparr>files := (files this)(destinationFile \<mapsto> (''partial'', 420))\<rparr>)"


definition example_task ::
  "(string \<Rightarrow> string option \<Rightarrow> app_updater \<Rightarrow> error option \<times> app_updater) \<Rightarrow> UpdateInfoAndProvider
     \<Rightarrow> DownloadExecutorTask" where
  "example_task t u =
     \<lparr>fileExtension = ''AppImage'', fileInfo = example_file, t_updateInfoAndProvider = u,
      task = t, done' = BaseUpdater_done\<rparr>"

section \<open>Properties\<close>

subsection \<open>Reading the parsers on concrete inputs\<close>

lemma parse_plain_examples:
  "parse_plain ''1.0.0'' = Some (1, 0, 0)"
  "parse_plain ''1.1.0'' = Some (1, 1, 0)"
  "parse_plain ''build-43'' = None"
  by (simp_all add: parse_plain_def is_digit_def digits_value_def)

lemma UUID_parse_hex_examples:
  "UUID_parse_hex ''12a70172-80f8-5cc4-8131-28f5e0edd2a1''
     = [0x12, 0xa7, 0x01, 0x72, 0x80, 0xf8, 0x5c, 0xc4, 0x81, 0x31, 0x28, 0xf5, 0xe0, 0xed, 0xd2, 0xa1]"
  "UUID_parse_hex ''00000000-0000-5000-8000-0000ffffffff''
     = [0, 0, 0, 0, 0, 0, 0x50, 0, 0x80, 0, 0, 0, 0xff, 0xff, 0xff, 0xff]"
  by (simp_all add: UUID_parse_hex_def hex_value_def)

subsection \<open>The channel setter\<close>

text \<open>
  Claim C10. The setter checks its argument only when a channel is already stored. While
  the stored channel is \<open>null\<close> (or \<open>undefined\<close>) an assignment never throws, whatever
  the value; while a channel is stored, an assignment throws exactly when the value is
  not a string or is the empty string, and what it throws carries
  \<open>ERR_UPDATER_INVALID_CHANNEL\<close>; an assignment that does not throw stores the value,
  sets \<open>allowDowngrade\<close> and changes nothing else.
\<close>

theorem channel_setter_validates_only_when_set:
  "(is_nullish (channel' this) \<longrightarrow>
      set_channel v this = Inr (this\<lparr>channel' := v, allowDowngrade := True\<rparr>))
   \<and> (\<not> is_nullish (channel' this) \<longrightarrow>
      ((\<exists>e. set_channel v this = Inl e) \<longleftrightarrow> (\<not> typeof_string v \<or> v = JSString []))
      \<and> (\<forall>e. set_channel v this = Inl e \<longrightarrow> error_code e = Some ''ERR_UPDATER_INVALID_CHANNEL''))
   \<and> (\<forall>this'. set_channel v this = Inr this' \<longrightarrow>
         this' = this\<lparr>channel' := v, allowDowngrade := True\<rparr>
         \<and> channel' this' = v \<and> allowDowngrade this')"
  by (cases v) (auto simp: set_channel_def newError_def split: if_splits)

theorem channel_setter_witness:
  "set_channel (JSString []) (new_AppUpdater ''1.0.0'')
     = Inr ((new_AppUpdater ''1.0.0'')\<lparr>channel' := JSString [], allowDowngrade := True\<rparr>)
   \<and> set_channel (JSNumber 5) (new_AppUpdater ''1.0.0'')
     = Inr ((new_AppUpdater ''1.0.0'')\<lparr>channel' := JSNumber 5, allowDowngrade := True\<rparr>)
   \<and> (\<exists>e. set_channel (JSString []) ((new_AppUpdater ''1.0.0'')\<lparr>channel' := JSString ''beta''\<rparr>) = Inl e)
   \<and> (\<exists>e. set_channel JSNull ((new_AppUpdater ''1.0.0'')\<lparr>channel' := JSString ''beta''\<rparr>) = Inl e)
   \<and> set_channel (JSString ''alpha'') ((new_AppUpdater ''1.0.0'')\<lparr>channel' := JSString ''beta''\<rparr>)
     = Inr ((new_AppUpdater ''1.0.0'')\<lparr>channel' := JSString ''alpha'', allowDowngrade := True\<rparr>)"
  using channel_setter_validates_only_when_set [of "new_AppUpdater ''1.0.0''" "JSString []"]
    channel_setter_validates_only_when_set [of "new_AppUpdater ''1.0.0''" "JSNumber 5"]
    channel_setter_validates_only_when_set
      [of "(new_AppUpdater ''1.0.0'')\<lparr>channel' := JSString ''beta''\<rparr>" "JSString []"]
    channel_setter_validates_only_when_set
      [of "(new_AppUpdater ''1.0.0'')\<lparr>channel' := JSString ''beta''\<rparr>" JSNull]
  by (simp add: new_AppUpdater_def set_channel_def)

subsection \<open>The availability decision\<close>

text \<open>
  Claim C4. With \<open>useSemver\<close> false the update is available exactly when the remote
  version differs from the current one as a string. The result is the same for every
  version parser, every UUID parser, every staging percentage and either value of
  \<open>allowDowngrade\<close>, and the updater is left as it was: nothing is parsed, gated or
  logged.
\<close>

theorem raw_string_mode_is_string_inequality:
  "useSemver this = SemverFalse \<Longrightarrow>
     isUpdateAvailable lib UUID_parse uip this
       = (Inr (version (info uip) \<noteq> currentVersionString this), this)"
  by (simp add: isUpdateAvailable_def)

theorem raw_string_mode_witness:
  "isUpdateAvailable plain_semver UUID_parse_hex
     \<lparr>info = \<lparr>version = ''build-43'', stagingPercentage = JSNumber 0\<rparr>, stagingUserId = None\<rparr>
     ((new_AppUpdater ''build-42'')\<lparr>useSemver := SemverFalse\<rparr>)
   = (Inr True, (new_AppUpdater ''build-42'')\<lparr>useSemver := SemverFalse\<rparr>)
   \<and> isUpdateAvailable plain_semver UUID_parse_hex
     \<lparr>info = \<lparr>version = ''build-42'', stagingPercentage = JSUndefined\<rparr>, stagingUserId = None\<rparr>
     ((new_AppUpdater ''build-42'')\<lparr>useSemver := SemverFalse\<rparr>)
   = (Inr False, (new_AppUpdater ''build-42'')\<lparr>useSemver := SemverFalse\<rparr>)"
  using raw_string_mode_is_string_inequality
      [of "(new_AppUpdater ''build-42'')\<lparr>useSemver := SemverFalse\<rparr>" plain_semver UUID_parse_hex
          "\<lparr>info = \<lparr>version = ''build-43'', stagingPercentage = JSNumber 0\<rparr>, stagingUserId = None\<rparr>"]
    raw_string_mode_is_string_inequality
      [of "(new_AppUpdater ''build-42'')\<lparr>useSemver := SemverFalse\<rparr>" plain_semver UUID_parse_hex
          "\<lparr>info = \<lparr>version = ''build-42'', stagingPercentage = JSUndefined\<rparr>, stagingUserId = None\<rparr>"]
  by (simp add: new_AppUpdater_def)

lemma isStagingMatch_keeps_allowDowngrade:
  "allowDowngrade (snd (isStagingMatch UUID_parse i u this)) = allowDowngrade this"
  by (simp add: isStagingMatch_def log_to_def Let_def split: option.splits sum.splits)

text \<open>
  Claim C1. In semver mode (\<open>useSemver\<close> not false), with both versions parsed in the
  mode's looseness: if the current or the remote version does not parse, the check fails
  with \<open>ERR_UPDATER_INVALID_VERSION\<close>; if both parse and are equal, the update is not
  available; if they differ and the staging gate passes, the update is available when the
  remote version is greater, and when it is less it is available exactly when
  \<open>allowDowngrade\<close> is set.
\<close>

theorem semver_mode_decision:
  assumes "useSemver this \<noteq> SemverFalse"
  shows
    "(parseVersion lib (currentVersionString this) (useSemver this = SemverLoose) = None
        \<or> parseVersion lib (version (info uip)) (useSemver this = SemverLoose) = None
      \<longrightarrow> (\<exists>msg. fst (isUpdateAvailable lib UUID_parse uip this)
                   = Inl (UpdaterError msg ''ERR_UPDATER_INVALID_VERSION'')))
     \<and> (\<forall>c r. parseVersion lib (currentVersionString this) (useSemver this = SemverLoose) = Some c
          \<and> parseVersion lib (version (info uip)) (useSemver this = SemverLoose) = Some r
        \<longrightarrow>
          (isVersionsEqual lib r c \<longrightarrow> fst (isUpdateAvailable lib UUID_parse uip this) = Inr False)
          \<and> (\<not> isVersionsEqual lib r c
               \<and> fst (isStagingMatch UUID_parse (info uip) (stagingUserId uip) this) = Inr True
             \<longrightarrow>
               (isVersionGreaterThan lib r c
                  \<longrightarrow> fst (isUpdateAvailable lib UUID_parse uip this) = Inr True)
               \<and> (isVersionLessThan lib r c
                  \<longrightarrow> fst (isUpdateAvailable lib UUID_parse uip this) = Inr (allowDowngrade this))))"
proof -
  have older: "isVersionLessThan lib r c \<Longrightarrow> \<not> isVersionGreaterThan lib r c" for r c
    by (simp add: isVersionLessThan_def isVersionGreaterThan_def)
  have keep: "allowDowngrade (snd (isStagingMatch UUID_parse (info uip) (stagingUserId uip) this))
                = allowDowngrade this"
    by (rule isStagingMatch_keeps_allowDowngrade)
  show ?thesis
    using assms keep
    by (auto simp: isUpdateAvailable_def currentVersion_def newError_def Let_def older
             split: option.splits prod.splits sum.splits)
qed

theorem semver_mode_decision_witness:
  "fst (isUpdateAvailable plain_semver UUID_parse_hex
          \<lparr>info = \<lparr>version = ''1.0.0'', stagingPercentage = JSUndefined\<rparr>, stagingUserId = None\<rparr>
          (new_AppUpdater ''1.0.0'')) = Inr False
   \<and> fst (isUpdateAvailable plain_semver UUID_parse_hex
          \<lparr>info = \<lparr>version = ''1.1.0'', stagingPercentage = JSUndefined\<rparr>, stagingUserId = None\<rparr>
          (new_AppUpdater ''1.0.0'')) = Inr True
   \<and> fst (isUpdateAvailable plain_semver UUID_parse_hex
          \<lparr>info = \<lparr>version = ''1.0.0'', stagingPercentage = JSUndefined\<rparr>, stagingUserId = None\<rparr>
          (new_AppUpdater ''1.1.0'')) = Inr False
   \<and> fst (isUpdateAvailable plain_semver UUID_parse_hex
          \<lparr>info = \<lparr>version = ''1.0.0'', stagingPercentage = JSUndefined\<rparr>, stagingUserId = None\<rparr>
          ((new_AppUpdater ''1.1.0'')\<lparr>allowDowngrade := True\<rparr>)) = Inr True
   \<and> (\<exists>msg. fst (isUpdateAvailable plain_semver UUID_parse_hex
          \<lparr>info = \<lparr>version = ''build-43'', stagingPercentage = JSUndefined\<rparr>, stagingUserId = None\<rparr>
          (new_AppUpdater ''1.1.0'')) = Inl (UpdaterError msg ''ERR_UPDATER_INVALID_VERSION''))"
  using
    semver_mode_decision [of "new_AppUpdater ''1.0.0''" plain_semver
      "\<lparr>info = \<lparr>version = ''1.0.0'', stagingPercentage = JSUndefined\<rparr>, stagingUserId = None\<rparr>" UUID_parse_hex]
    semver_mode_decision [of "new_AppUpdater ''1.0.0''" plain_semver
      "\<lparr>info = \<lparr>version = ''1.1.0'', stagingPercentage = JSUndefined\<rparr>, stagingUserId = None\<rparr>" UUID_parse_hex]
    semver_mode_decision [of "new_AppUpdater ''1.1.0''" plain_semver
      "\<lparr>info = \<lparr>version = ''1.0.0'', stagingPercentage = JSUndefined\<rparr>, stagingUserId = None\<rparr>" UUID_parse_hex]
    semver_mode_decision [of "(new_AppUpdater ''1.1.0'')\<lparr>allowDowngrade := True\<rparr>" plain_semver
      "\<lparr>info = \<lparr>version = ''1.0.0'', stagingPercentage = JSUndefined\<rparr>, stagingUserId = None\<rparr>" UUID_parse_hex]
    semver_mode_decision [of "new_AppUpdater ''1.1.0''" plain_semver
      "\<lparr>info = \<lparr>version = ''build-43'', stagingPercentage = JSUndefined\<rparr>, stagingUserId = None\<rparr>" UUID_parse_hex]
  by (simp add: new_AppUpdater_def plain_semver_def parse_plain_examples isStagingMatch_def
        isVersionsEqual_def isVersionGreaterThan_def isVersionLessThan_def)

subsection \<open>The staging gate\<close>

lemma drop12_of_16:
  assumes "length (buf :: 'a list) = 16"
  shows "drop 12 buf = [buf ! 12, buf ! 13, buf ! 14, buf ! 15]"
proof (rule nth_equalityI)
  show "length (drop 12 buf) = length [buf ! 12, buf ! 13, buf ! 14, buf ! 15]"
    using assms by simp
next
  fix i assume "i < length (drop 12 buf)"
  then have "i < 4" using assms by simp
  then have "i = 0 \<or> i = 1 \<or> i = 2 \<or> i = 3" by arith
  then show "drop 12 buf ! i = [buf ! 12, buf ! 13, buf ! 14, buf ! 15] ! i"
    using assms by auto
qed

lemma readUInt32BE_16:
  assumes "length buf = 16"
  shows "readUInt32BE buf 12 = Inr (last4_be buf)"
  using assms by (simp add: readUInt32BE_def last4_be_def drop12_of_16)

lemma unat_byte_le: "unat (w :: 8 word) \<le> 255"
  using unsigned_less [of w, where ?'a = nat] by simp

lemma last4_be_bound:
  assumes "length buf = 16"
  shows "last4_be buf \<le> 4294967295"
  using unat_byte_le [of "buf ! 12"] unat_byte_le [of "buf ! 13"]
    unat_byte_le [of "buf ! 14"] unat_byte_le [of "buf ! 15"] assms
  by (simp add: last4_be_def drop12_of_16)

lemma last4_be_max:
  assumes "length buf = 16"
  shows "last4_be buf = 4294967295 \<longleftrightarrow> drop 12 buf = [255, 255, 255, 255]"
proof -
  have e: "unat (w :: 8 word) = 255 \<longleftrightarrow> w = 255" for w
    by (simp add: word_unat_eq_iff)
  show ?thesis
    using unat_byte_le [of "buf ! 12"] unat_byte_le [of "buf ! 13"]
      unat_byte_le [of "buf ! 14"] unat_byte_le [of "buf ! 15"] assms
    apply (simp add: last4_be_def drop12_of_16 flip: e)
    apply arith
    done
qed

lemma staging_fraction_range:
  assumes "length buf = 16"
  shows "0 \<le> staging_fraction buf" and "staging_fraction buf \<le> 1"
    and "staging_fraction buf < 1 \<longleftrightarrow> drop 12 buf \<noteq> [255, 255, 255, 255]"
proof -
  show "0 \<le> staging_fraction buf" by (simp add: staging_fraction_def)
  have le: "(of_nat (last4_be buf) :: rat) \<le> 4294967295"
    using last4_be_bound [OF assms] by (metis of_nat_le_iff of_nat_numeral)
  then show "staging_fraction buf \<le> 1" by (simp add: staging_fraction_def)
  have "staging_fraction buf < 1 \<longleftrightarrow> (of_nat (last4_be buf) :: rat) < 4294967295"
    by (simp add: staging_fraction_def)
  also have "\<dots> \<longleftrightarrow> last4_be buf < 4294967295"
    by (metis of_nat_less_iff of_nat_numeral)
  also have "\<dots> \<longleftrightarrow> last4_be buf \<noteq> 4294967295"
    using last4_be_bound [OF assms] by arith
  also have "\<dots> \<longleftrightarrow> drop 12 buf \<noteq> [255, 255, 255, 255]"
    by (simp add: last4_be_max [OF assms])
  finally show "staging_fraction buf < 1 \<longleftrightarrow> drop 12 buf \<noteq> [255, 255, 255, 255]" .
qed

lemma parseInt_exponent_form:
  "parseInt (JSNumber (10 ^ 21)) = Some 1"
  "parseInt (JSNumber (- (15 * 10 ^ 21))) = Some (- 1)"
  "parseInt (JSNumber 100) = Some 100"
  by (simp_all add: leading_digit.simps)

lemma isStagingMatch_numeric:
  assumes "length (UUID_parse u) = 16" and "stagingPercentage i = JSNumber p"
    and "\<bar>p\<bar> < 10 ^ 21"
  shows "fst (isStagingMatch UUID_parse i (Some u) this)
           = Inr (staging_fraction (UUID_parse u) < of_int p / 100)"
  using assms by (simp add: isStagingMatch_def readUInt32BE_16 staging_fraction_def mult.commute)

text \<open>
  For a UUID of sixteen bytes and an integer percentage \<open>p\<close> from 0 to 100, the gate
  passes exactly when \<open>F < p / 100\<close>, where \<open>F\<close> is the last four bytes read as a
  big-endian 32-bit integer and divided by \<open>0xffffffff\<close>; \<open>F\<close> is not negative, and it
  is below 1 for every UUID whose last four bytes are not all \<open>0xff\<close>.
\<close>

lemma staging_gate_is_fraction_below_percentage:
  assumes "length (UUID_parse u) = 16" and "stagingPercentage i = JSNumber p"
    and "0 \<le> p" and "p \<le> 100"
  shows "fst (isStagingMatch UUID_parse i (Some u) this)
           = Inr (staging_fraction (UUID_parse u) < of_int p / 100)
         \<and> 0 \<le> staging_fraction (UUID_parse u)
         \<and> (drop 12 (UUID_parse u) \<noteq> [255, 255, 255, 255] \<longrightarrow> staging_fraction (UUID_parse u) < 1)"
proof -
  have "\<bar>p\<bar> < 10 ^ 21" using assms(3,4) by simp
  then show ?thesis
    using assms(1,2) isStagingMatch_numeric [of UUID_parse u i p this]
      staging_fraction_range [of "UUID_parse u"]
    by simp
qed

lemma staging_gate_fraction_example:
  "length (UUID_parse_hex ''12a70172-80f8-5cc4-8131-28f5e0edd2a1'') = 16
   \<and> fst (isStagingMatch UUID_parse_hex \<lparr>version = ''1.1.0'', stagingPercentage = JSNumber 1\<rparr>
            (Some ''12a70172-80f8-5cc4-8131-28f5e0edd2a1'') (new_AppUpdater ''1.0.0'')) = Inr False
   \<and> staging_fraction (UUID_parse_hex ''12a70172-80f8-5cc4-8131-28f5e0edd2a1'') = 3773682337 / 4294967295
   \<and> staging_fraction (UUID_parse_hex ''12a70172-80f8-5cc4-8131-28f5e0edd2a1'') < 1"
  using staging_gate_is_fraction_below_percentage
    [of UUID_parse_hex "''12a70172-80f8-5cc4-8131-28f5e0edd2a1''"
        "\<lparr>version = ''1.1.0'', stagingPercentage = JSNumber 1\<rparr>" 1 "new_AppUpdater ''1.0.0''"]
  by (simp add: UUID_parse_hex_examples staging_fraction_def last4_be_def)


text \<open>The two ends of the gate: at 0 no install passes; at 100 all pass but one kind.\<close>

lemma staging_gate_zero_percent:
  assumes "length (UUID_parse u) = 16" and "stagingPercentage i = JSNumber 0"
  shows "fst (isStagingMatch UUID_parse i (Some u) this) = Inr False"
  using assms isStagingMatch_numeric [of UUID_parse u i 0 this]
    staging_fraction_range(1) [of "UUID_parse u"]
  by simp

lemma staging_gate_hundred_percent:
  assumes "length (UUID_parse u) = 16" and "stagingPercentage i = JSNumber 100"
  shows "fst (isStagingMatch UUID_parse i (Some u) this)
           = Inr (drop 12 (UUID_parse u) \<noteq> [255, 255, 255, 255])"
  using assms isStagingMatch_numeric [of UUID_parse u i 100 this]
    staging_fraction_range(3) [of "UUID_parse u"]
  by simp

text \<open>
  Claim C3. With a percentage of 100 every install is to pass the gate. An install whose
  UUID ends in \<open>ffffffff\<close> does not: the quotient is 1, which is not below \<open>100 / 100\<close>.
\<close>

theorem staging_gate_hundred_percent_rejects:
  "isStagingMatch UUID_parse_hex \<lparr>version = ''1.1.0'', stagingPercentage = JSNumber 100\<rparr>
     (Some ''00000000-0000-5000-8000-0000ffffffff'') (new_AppUpdater ''1.0.0'')
   = (Inr False,
      log_to Info ''Staging percentage: , percentage: , user id: '' (new_AppUpdater ''1.0.0''))"
  by (simp add: isStagingMatch_def UUID_parse_hex_examples readUInt32BE_def)

text \<open>
  Claim C9, as amended. If the staging percentage is present and does not parse to a
  number, or is present and the staging user id is \<open>null\<close>, the gate passes and one
  warning is logged; if the percentage is absent the gate passes and nothing is logged,
  whatever the user id.
\<close>

theorem staging_gate_fails_open:
  "(\<not> is_nullish (stagingPercentage i) \<and> (parseInt (stagingPercentage i) = None \<or> uid = None)
      \<longrightarrow> fst (isStagingMatch UUID_parse i uid this) = Inr True
          \<and> (\<exists>msg. logger (snd (isStagingMatch UUID_parse i uid this)) = logger this @ [(Warn, msg)]))
   \<and> (is_nullish (stagingPercentage i)
      \<longrightarrow> isStagingMatch UUID_parse i uid this = (Inr True, this))"
  by (auto simp: isStagingMatch_def log_to_def split: option.splits)

theorem staging_gate_fails_open_witness:
  "isStagingMatch UUID_parse_hex \<lparr>version = ''1.1.0'', stagingPercentage = JSString ''half''\<rparr>
     (Some ''12a70172-80f8-5cc4-8131-28f5e0edd2a1'') (new_AppUpdater ''1.0.0'')
   = (Inr True, log_to Warn ''Staging percentage is NaN: '' (new_AppUpdater ''1.0.0''))
   \<and> isStagingMatch UUID_parse_hex \<lparr>version = ''1.1.0'', stagingPercentage = JSNumber 50\<rparr>
     None (new_AppUpdater ''1.0.0'')
   = (Inr True, log_to Warn ''Staging user ID is not supported, allowing the update'' (new_AppUpdater ''1.0.0''))
   \<and> isStagingMatch UUID_parse_hex \<lparr>version = ''1.1.0'', stagingPercentage = JSUndefined\<rparr>
     (Some ''12a70172-80f8-5cc4-8131-28f5e0edd2a1'') (new_AppUpdater ''1.0.0'')
   = (Inr True, new_AppUpdater ''1.0.0'')"
  using
    staging_gate_fails_open [of "\<lparr>version = ''1.1.0'', stagingPercentage = JSString ''half''\<rparr>"
      "Some ''12a70172-80f8-5cc4-8131-28f5e0edd2a1''" UUID_parse_hex "new_AppUpdater ''1.0.0''"]
    staging_gate_fails_open [of "\<lparr>version = ''1.1.0'', stagingPercentage = JSNumber 50\<rparr>"
      None UUID_parse_hex "new_AppUpdater ''1.0.0''"]
    staging_gate_fails_open [of "\<lparr>version = ''1.1.0'', stagingPercentage = JSUndefined\<rparr>"
      "Some ''12a70172-80f8-5cc4-8131-28f5e0edd2a1''" UUID_parse_hex "new_AppUpdater ''1.0.0''"]
  by (simp add: isStagingMatch_def parseInt_string_def is_white_def is_digit_def)

text \<open>
  The claim as it was stated has a warning logged whenever the staging user id is
  \<open>null\<close>. With no staging percentage in the manifest the gate returns before it looks
  at the user id, and logs nothing.
\<close>

theorem no_warning_without_percentage:
  "isStagingMatch UUID_parse_hex \<lparr>version = ''1.1.0'', stagingPercentage = JSUndefined\<rparr>
     None (new_AppUpdater ''1.0.0'')
   = (Inr True, new_AppUpdater ''1.0.0'')
   \<and> logger (new_AppUpdater ''1.0.0'') = []"
  by (simp add: isStagingMatch_def new_AppUpdater_def)

subsection \<open>The single-flight update check\<close>

lemma checkForUpdates_outstanding:
  assumes "checkForUpdatesPromise this = Some p"
  shows "fst (checkForUpdates this) = p"
    and "checkForUpdatesPromise (snd (checkForUpdates this)) = Some p"
    and "doCheckForUpdates_calls (snd (checkForUpdates this)) = doCheckForUpdates_calls this"
    and "promises_created (snd (checkForUpdates this)) = promises_created this"
  using assms by (simp_all add: checkForUpdates_def log_to_def)

lemma checkForUpdates_idle:
  assumes "checkForUpdatesPromise this = None"
  shows "fst (checkForUpdates this) = promises_created this"
    and "checkForUpdatesPromise (snd (checkForUpdates this)) = Some (promises_created this)"
    and "doCheckForUpdates_calls (snd (checkForUpdates this)) = doCheckForUpdates_calls this + 1"
    and "promises_created (snd (checkForUpdates this)) = promises_created this + 1"
  using assms by (simp_all add: checkForUpdates_def log_to_def Let_def)

lemma checkForUpdates_times_outstanding:
  assumes "checkForUpdatesPromise this = Some p"
  shows "fst (checkForUpdates_times n this) = replicate n p
         \<and> checkForUpdatesPromise (snd (checkForUpdates_times n this)) = Some p
         \<and> doCheckForUpdates_calls (snd (checkForUpdates_times n this)) = doCheckForUpdates_calls this
         \<and> promises_created (snd (checkForUpdates_times n this)) = promises_created this"
  using assms
proof (induction n arbitrary: this)
  case 0
  then show ?case by simp
next
  case (Suc n)
  obtain q this1 where c: "checkForUpdates this = (q, this1)" by (cases "checkForUpdates this")
  from checkForUpdates_outstanding [OF Suc.prems] c
  have q: "q = p" and s1: "checkForUpdatesPromise this1 = Some p"
    and d1: "doCheckForUpdates_calls this1 = doCheckForUpdates_calls this"
    and p1: "promises_created this1 = promises_created this"
    by simp_all
  from Suc.IH [OF s1] show ?case
    by (auto simp: c q d1 p1 split: prod.splits)
qed

lemma checkForUpdates_settled_clears:
  "checkForUpdatesPromise (snd (checkForUpdates_settled outcome this)) = None"
  "doCheckForUpdates_calls (snd (checkForUpdates_settled outcome this)) = doCheckForUpdates_calls this"
  "promises_created (snd (checkForUpdates_settled outcome this)) = promises_created this"
  "fst (checkForUpdates_settled outcome this) = outcome"
  by (simp_all add: checkForUpdates_settled_def emit_def split: sum.splits)

text \<open>
  Claim C5. From an updater with no check outstanding, any number of calls of
  \<open>checkForUpdates\<close> in a row return one and the same promise, and \<open>doCheckForUpdates\<close>
  has been called once, so the provider is asked at most once. When that check settles,
  resolved or rejected, the memoized promise is cleared: the next call returns another
  promise and calls \<open>doCheckForUpdates\<close> again.
\<close>

theorem checkForUpdates_single_flight:
  assumes "checkForUpdatesPromise this = None"
  shows "\<exists>p. fst (checkForUpdates_times (Suc n) this) = replicate (Suc n) p
           \<and> checkForUpdatesPromise (snd (checkForUpdates_times (Suc n) this)) = Some p
           \<and> doCheckForUpdates_calls (snd (checkForUpdates_times (Suc n) this))
               = doCheckForUpdates_calls this + 1
           \<and> (\<forall>outcome :: error + 'r.
                 checkForUpdatesPromise
                   (snd (checkForUpdates_settled outcome (snd (checkForUpdates_times (Suc n) this)))) = None
                 \<and> fst (checkForUpdates
                     (snd (checkForUpdates_settled outcome (snd (checkForUpdates_times (Suc n) this))))) \<noteq> p
                 \<and> doCheckForUpdates_calls (snd (checkForUpdates
                     (snd (checkForUpdates_settled outcome (snd (checkForUpdates_times (Suc n) this))))))
                     = doCheckForUpdates_calls this + 2)"
proof -
  let ?p = "promises_created this"
  obtain this1 where c: "checkForUpdates this = (?p, this1)"
    using checkForUpdates_idle(1) [OF assms] by (cases "checkForUpdates this") simp
  have s1: "checkForUpdatesPromise this1 = Some ?p"
    and d1: "doCheckForUpdates_calls this1 = doCheckForUpdates_calls this + 1"
    and p1: "promises_created this1 = ?p + 1"
    using checkForUpdates_idle(2,3,4) [OF assms] c by simp_all
  let ?after = "snd (checkForUpdates_times (Suc n) this)"
  have t: "fst (checkForUpdates_times (Suc n) this) = replicate (Suc n) ?p"
    and a: "checkForUpdatesPromise ?after = Some ?p"
    and d: "doCheckForUpdates_calls ?after = doCheckForUpdates_calls this + 1"
    and pc: "promises_created ?after = ?p + 1"
    using checkForUpdates_times_outstanding [OF s1, of n] by (auto simp: c d1 p1 split: prod.splits)
  have "\<forall>outcome :: error + 'r.
          checkForUpdatesPromise (snd (checkForUpdates_settled outcome ?after)) = None
          \<and> fst (checkForUpdates (snd (checkForUpdates_settled outcome ?after))) \<noteq> ?p
          \<and> doCheckForUpdates_calls (snd (checkForUpdates (snd (checkForUpdates_settled outcome ?after))))
              = doCheckForUpdates_calls this + 2"
  proof
    fix outcome :: "error + 'r"
    let ?s = "snd (checkForUpdates_settled outcome ?after)"
    have n: "checkForUpdatesPromise ?s = None" by (rule checkForUpdates_settled_clears)
    show "checkForUpdatesPromise ?s = None
          \<and> fst (checkForUpdates ?s) \<noteq> ?p
          \<and> doCheckForUpdates_calls (snd (checkForUpdates ?s)) = doCheckForUpdates_calls this + 2"
      using checkForUpdates_idle(1,3) [OF n] n
      by (simp add: checkForUpdates_settled_clears pc d del: checkForUpdates_times.simps)
  qed
  with t a d show ?thesis by blast
qed


theorem checkForUpdates_single_flight_witness:
  "fst (checkForUpdates_times (Suc (Suc (Suc 0))) (new_AppUpdater ''1.0.0'')) = [0, 0, 0]
   \<and> doCheckForUpdates_calls (snd (checkForUpdates_times (Suc (Suc (Suc 0))) (new_AppUpdater ''1.0.0''))) = 1
   \<and> checkForUpdatesPromise
        (snd (checkForUpdates_settled (Inl CancellationError :: error + unit)
               (snd (checkForUpdates_times (Suc (Suc (Suc 0))) (new_AppUpdater ''1.0.0''))))) = None
   \<and> fst (checkForUpdates
        (snd (checkForUpdates_settled (Inl CancellationError :: error + unit)
               (snd (checkForUpdates_times (Suc (Suc (Suc 0))) (new_AppUpdater ''1.0.0'')))))) = 1
   \<and> doCheckForUpdates_calls (snd (checkForUpdates
        (snd (checkForUpdates_settled (Inr () :: error + unit)
               (snd (checkForUpdates_times (Suc (Suc (Suc 0))) (new_AppUpdater ''1.0.0''))))))) = 2"
  using checkForUpdates_single_flight [of "new_AppUpdater ''1.0.0''" "Suc (Suc 0)", where ?'r = unit]
  by (simp add: new_AppUpdater_def checkForUpdates_def checkForUpdates_settled_def log_to_def emit_def)

subsection \<open>The download executor\<close>

text \<open>
  What a run of \<open>executeDownload\<close> returns and the state it leaves, from what each
  awaited call returned.
\<close>

lemma createTempUpdateFile_path:
  "fst (createTempUpdateFile (''temp-'' @ getCacheUpdateFileName t) (cacheDirForPendingUpdate helper) s)
     = tempUpdateFile_path helper t"
  by (simp add: createTempUpdateFile_def tempUpdateFile_path_def)

lemma executeDownload_catch_state:
  "fst (executeDownload_catch t helper u e s) = Inl e"
  "snd (snd (executeDownload_catch t helper u e s))
     = (if is_CancellationError e
        then emit (EvUpdateCancelled (info (t_updateInfoAndProvider t)))
               (log_to Info ''cancelled'' (snd (unlink u (snd (clear helper s)))))
        else snd (unlink u (snd (clear helper s))))"
  by (simp_all add: executeDownload_catch_def removeFileIfAny_def Let_def)


lemma executeDownload_run:
  assumes h: "getOrCreateDownloadHelper env this = (Inr helper, this1)"
    and m: "mkdir env (cacheDirForPendingUpdate helper) = None"
    and v: "validateDownloadedPath env helper (updateFile_path helper t)
              (info (t_updateInfoAndProvider t)) this1 = (cached, this2)"
    and tk: "task t (tempUpdateFile_path helper t) (packageFile_path helper t)
               (snd (createTempUpdateFile (''temp-'' @ getCacheUpdateFileName t)
                       (cacheDirForPendingUpdate helper) this2)) = (res, this4)"
    and rn: "rename (tempUpdateFile_path helper t) (updateFile_path helper t) this4 = (rr, this5)"
  shows "(fst (executeDownload env t this), snd (snd (executeDownload env t this))) =
     (case cached of
        Some c \<Rightarrow>
          (let x = executeDownload_done t helper c (packageFile_path helper t)
                     (getCacheUpdateFileName t) False this2
           in (fst x, snd (snd x)))
      | None \<Rightarrow>
          (case res of
             Some e \<Rightarrow>
               (let x = executeDownload_catch t helper (updateFile_path helper t) e this4
                in (fst x, snd (snd x)))
           | None \<Rightarrow>
               (case rr of
                  Some e \<Rightarrow>
                    (let x = executeDownload_catch t helper (updateFile_path helper t) e this5
                     in (fst x, snd (snd x)))
                | None \<Rightarrow>
                    (let x = executeDownload_done t helper (updateFile_path helper t)
                               (packageFile_path helper t) (getCacheUpdateFileName t) True
                               (log_to Info ''New version  has been downloaded to '' this5)
                     in (fst x, snd (snd x))))))"
proof -
  obtain tmp this3 where ct: "createTempUpdateFile (''temp-'' @ getCacheUpdateFileName t)
      (cacheDirForPendingUpdate helper) this2 = (tmp, this3)"
    by (cases "createTempUpdateFile (''temp-'' @ getCacheUpdateFileName t)
      (cacheDirForPendingUpdate helper) this2")
  have tmp: "tmp = tempUpdateFile_path helper t"
    using ct createTempUpdateFile_path [of t helper this2] by simp
  have tk': "task t tmp (packageFile_path helper t) this3 = (res, this4)"
    using tk ct tmp by simp
  have rn': "rename tmp (updateFile_path helper t) this4 = (rr, this5)"
    using rn tmp by simp
  note u = updateFile_path_def [symmetric] packageFile_path_def [symmetric]
  note ct = ct [simplified]
  show ?thesis
    unfolding executeDownload_def Let_def
    by (simp add: h m u v ct tk' rn' Let_def split: option.splits prod.splits)
qed



lemma cleanup_state:
  "emitted (snd (unlink u (snd (clear helper s)))) = emitted s"
  "logger (snd (unlink u (snd (clear helper s)))) = logger s"
  "helper_file (snd (unlink u (snd (clear helper s)))) = None"
  "in_dir (cacheDirForPendingUpdate helper) p \<Longrightarrow> files (snd (unlink u (snd (clear helper s)))) p = None"
  by (auto simp: clear_def unlink_def emptyDir_def split: option.splits)

lemma in_dir_tempUpdateFile_path:
  "in_dir (cacheDirForPendingUpdate helper) (tempUpdateFile_path helper t)"
  by (simp add: in_dir_def tempUpdateFile_path_def path_join_def)

text \<open>
  Claim C6. Take a run of \<open>downloadUpdate\<close> that reaches the download task, and let the
  task reject with a \<open>CancellationError\<close>, leaving the state \<open>this4\<close>. Then
  \<open>downloadUpdate\<close> rejects with that error, and the state at the rejection is \<open>this4\<close>
  after \<open>clear()\<close>, \<open>unlink(updateFile)\<close>, the log entry and the emission of
  \<open>update-cancelled\<close>, in this order. So the events emitted are those the task left and
  then \<open>update-cancelled\<close>, once, with nothing on \<open>error\<close>; the temp file does not
  exist, no file is left in the cache directory and the helper holds no downloaded file.
\<close>

theorem cancelled_download_cleans_up_and_signals_once:
  assumes u: "updateInfoAndProvider this = Some uip"
    and h: "getOrCreateDownloadHelper env (log_to Info ''Downloading update from '' this)
              = (Inr helper, this1)"
    and m: "mkdir env (cacheDirForPendingUpdate helper) = None"
    and v: "validateDownloadedPath env helper (updateFile_path helper (mk uip))
              (info (t_updateInfoAndProvider (mk uip))) this1 = (None, this2)"
    and tk: "task (mk uip) (tempUpdateFile_path helper (mk uip)) (packageFile_path helper (mk uip))
               (snd (createTempUpdateFile (''temp-'' @ getCacheUpdateFileName (mk uip))
                       (cacheDirForPendingUpdate helper) this2)) = (Some CancellationError, this4)"
  shows
    "fst (downloadUpdate (\<lambda>u. executeDownload env (mk u)) this) = Inl CancellationError
     \<and> snd (snd (downloadUpdate (\<lambda>u. executeDownload env (mk u)) this))
         = emit (EvUpdateCancelled (info (t_updateInfoAndProvider (mk uip))))
             (log_to Info ''cancelled''
                (snd (unlink (updateFile_path helper (mk uip)) (snd (clear helper this4)))))
     \<and> emitted (snd (snd (downloadUpdate (\<lambda>u. executeDownload env (mk u)) this)))
         = emitted this4 @ [EvUpdateCancelled (info (t_updateInfoAndProvider (mk uip)))]
     \<and> files (snd (snd (downloadUpdate (\<lambda>u. executeDownload env (mk u)) this)))
         (tempUpdateFile_path helper (mk uip)) = None
     \<and> (\<forall>p. in_dir (cacheDirForPendingUpdate helper) p
           \<longrightarrow> files (snd (snd (downloadUpdate (\<lambda>u. executeDownload env (mk u)) this))) p = None)
     \<and> helper_file (snd (snd (downloadUpdate (\<lambda>u. executeDownload env (mk u)) this))) = None"
proof -
  let ?start = "log_to Info ''Downloading update from '' this"
  let ?final = "emit (EvUpdateCancelled (info (t_updateInfoAndProvider (mk uip))))
             (log_to Info ''cancelled''
                (snd (unlink (updateFile_path helper (mk uip)) (snd (clear helper this4)))))"
  obtain rr this5 where rn: "rename (tempUpdateFile_path helper (mk uip))
      (updateFile_path helper (mk uip)) this4 = (rr, this5)"
    by (cases "rename (tempUpdateFile_path helper (mk uip)) (updateFile_path helper (mk uip)) this4")
  obtain r0 tr0 s0 where x: "executeDownload env (mk uip) ?start = (r0, tr0, s0)"
    by (cases "executeDownload env (mk uip) ?start")
  from executeDownload_run [OF h m v tk rn] x
  have r0: "r0 = Inl CancellationError" and s0: "s0 = ?final"
    by (simp_all add: Let_def executeDownload_catch_state)
  have d: "fst (downloadUpdate (\<lambda>u. executeDownload env (mk u)) this) = Inl CancellationError"
    "snd (snd (downloadUpdate (\<lambda>u. executeDownload env (mk u)) this)) = ?final"
    by (simp_all add: downloadUpdate_def Let_def u x r0 s0 errorHandler_def)
  have e: "emitted ?final = emitted this4 @ [EvUpdateCancelled (info (t_updateInfoAndProvider (mk uip)))]"
    by (simp add: emit_def log_to_def cleanup_state)
  have f: "\<forall>p. in_dir (cacheDirForPendingUpdate helper) p \<longrightarrow> files ?final p = None"
    by (simp add: emit_def log_to_def cleanup_state)
  have g: "helper_file ?final = None"
    by (simp add: emit_def log_to_def cleanup_state)
  from f in_dir_tempUpdateFile_path [of helper "mk uip"]
  have t: "files ?final (tempUpdateFile_path helper (mk uip)) = None" by blast
  show ?thesis
    unfolding d using e f g t by simp
qed

subsection \<open>Runs in the example world\<close>

lemmas example_defs =
  example_env_def example_update_def example_file_def example_task_def example_updater_def
  new_AppUpdater_def BaseUpdater_done_def

lemmas executor_defs =
  executeDownload_def executeDownload_catch_def executeDownload_done_def
  removeFileIfAny_def getOrCreateDownloadHelper_def getCacheUpdateFileName_def
  createTempUpdateFile_def setDownloadedFile_def clear_def unlink_def rename_def chmod_def
  emptyDir_def in_dir_def path_join_def posix_basename_def endsWith_def path_extname_def
  cacheDirForPendingUpdate_def emit_def log_to_def

lemmas path_defs = updateFile_path_def tempUpdateFile_path_def packageFile_path_def

lemma example_cancelled_state:
  "fst (downloadUpdate (\<lambda>u. executeDownload (example_env ''linux'') (example_task cancelled_task u))
          example_updater) = Inl CancellationError"
  "emitted (snd (snd (downloadUpdate
          (\<lambda>u. executeDownload (example_env ''linux'') (example_task cancelled_task u)) example_updater)))
       = [EvUpdateCancelled \<lparr>version = ''1.1.0'', stagingPercentage = JSUndefined\<rparr>]"
  "files (snd (snd (downloadUpdate
          (\<lambda>u. executeDownload (example_env ''linux'') (example_task cancelled_task u)) example_updater)))
         ''/cache/app-updater/pending/temp-app-1.1.0.AppImage'' = None"
  "helper_file (snd (snd (downloadUpdate
          (\<lambda>u. executeDownload (example_env ''linux'') (example_task cancelled_task u)) example_updater)))
       = None"
  "files (snd (cancelled_task ''/cache/app-updater/pending/temp-app-1.1.0.AppImage'' None
                     example_updater))
         ''/cache/app-updater/pending/temp-app-1.1.0.AppImage'' = Some (''partial'', 420)"
  by (simp_all add: example_defs executor_defs cancelled_task_def downloadUpdate_def errorHandler_def
        dispatchError_def Let_def)

theorem cancelled_download_witness:
  "fst (downloadUpdate (\<lambda>u. executeDownload (example_env ''linux'') (example_task cancelled_task u))
          example_updater) = Inl CancellationError
   \<and> emitted (snd (snd (downloadUpdate
          (\<lambda>u. executeDownload (example_env ''linux'') (example_task cancelled_task u)) example_updater)))
       = [EvUpdateCancelled \<lparr>version = ''1.1.0'', stagingPercentage = JSUndefined\<rparr>]
   \<and> files (snd (snd (downloadUpdate
          (\<lambda>u. executeDownload (example_env ''linux'') (example_task cancelled_task u)) example_updater)))
         ''/cache/app-updater/pending/temp-app-1.1.0.AppImage'' = None
   \<and> helper_file (snd (snd (downloadUpdate
          (\<lambda>u. executeDownload (example_env ''linux'') (example_task cancelled_task u)) example_updater)))
       = None
   \<and> files (snd (cancelled_task ''/cache/app-updater/pending/temp-app-1.1.0.AppImage'' None
                     example_updater))
         ''/cache/app-updater/pending/temp-app-1.1.0.AppImage'' = Some (''partial'', 420)"
proof -
  let ?E = "example_env ''linux''"
  let ?T = "example_task cancelled_task example_update"
  let ?H = "''/cache/app-updater''"
  let ?s1 = "snd (getOrCreateDownloadHelper ?E (log_to Info ''Downloading update from '' example_updater))"
  let ?s3 = "snd (createTempUpdateFile (''temp-'' @ getCacheUpdateFileName ?T)
                    (cacheDirForPendingUpdate ?H) ?s1)"
  let ?s4 = "snd (task ?T (tempUpdateFile_path ?H ?T) (packageFile_path ?H ?T) ?s3)"
  have u: "updateInfoAndProvider example_updater = Some example_update"
    by (simp add: example_updater_def new_AppUpdater_def)
  have h: "getOrCreateDownloadHelper ?E (log_to Info ''Downloading update from '' example_updater)
             = (Inr ?H, ?s1)"
    by (simp add: prod_eq_iff getOrCreateDownloadHelper_def example_defs log_to_def path_join_def Let_def)
  have m: "mkdir ?E (cacheDirForPendingUpdate ?H) = None"
    by (simp add: example_env_def)
  have v: "validateDownloadedPath ?E ?H (updateFile_path ?H ?T) (info (t_updateInfoAndProvider ?T)) ?s1
             = (None, ?s1)"
    by (simp add: example_env_def)
  have tk: "task ?T (tempUpdateFile_path ?H ?T) (packageFile_path ?H ?T) ?s3
              = (Some CancellationError, ?s4)"
    by (simp add: prod_eq_iff example_task_def cancelled_task_def)
  have e4: "emitted (snd (task ?T ''/cache/app-updater/pending/temp-app-1.1.0.AppImage''
                             (packageFile_path ?H ?T) ?s3)) = []"
    by (simp add: example_defs cancelled_task_def createTempUpdateFile_def getOrCreateDownloadHelper_def
          log_to_def Let_def)
  have tp: "tempUpdateFile_path ?H ?T = ''/cache/app-updater/pending/temp-app-1.1.0.AppImage''"
    by (simp add: path_defs example_defs cacheDirForPendingUpdate_def path_join_def
          getCacheUpdateFileName_def endsWith_def posix_basename_def)
  have i: "info (t_updateInfoAndProvider ?T) = \<lparr>version = ''1.1.0'', stagingPercentage = JSUndefined\<rparr>"
    by (simp add: example_defs)
  from cancelled_download_cleans_up_and_signals_once [of example_updater example_update ?E ?H ?s1
         "example_task cancelled_task" ?s1 ?s4, OF u h m v tk]
  have "fst (downloadUpdate (\<lambda>u. executeDownload ?E (example_task cancelled_task u)) example_updater)
          = Inl CancellationError"
    and "emitted (snd (snd (downloadUpdate
            (\<lambda>u. executeDownload ?E (example_task cancelled_task u)) example_updater)))
          = emitted ?s4 @ [EvUpdateCancelled (info (t_updateInfoAndProvider ?T))]"
    and "files (snd (snd (downloadUpdate
            (\<lambda>u. executeDownload ?E (example_task cancelled_task u)) example_updater)))
           (tempUpdateFile_path ?H ?T) = None"
    and "helper_file (snd (snd (downloadUpdate
            (\<lambda>u. executeDownload ?E (example_task cancelled_task u)) example_updater))) = None"
    by blast+
  then have "fst (downloadUpdate (\<lambda>u. executeDownload ?E (example_task cancelled_task u)) example_updater)
          = Inl CancellationError"
    and "emitted (snd (snd (downloadUpdate
            (\<lambda>u. executeDownload ?E (example_task cancelled_task u)) example_updater)))
          = [EvUpdateCancelled \<lparr>version = ''1.1.0'', stagingPercentage = JSUndefined\<rparr>]"
    and "files (snd (snd (downloadUpdate
            (\<lambda>u. executeDownload ?E (example_task cancelled_task u)) example_updater)))
           ''/cache/app-updater/pending/temp-app-1.1.0.AppImage'' = None"
    and "helper_file (snd (snd (downloadUpdate
            (\<lambda>u. executeDownload ?E (example_task cancelled_task u)) example_updater))) = None"
    by (simp_all only: e4 i tp append_Nil)
  then show ?thesis
    by (simp add: example_cancelled_state(5))
qed


subsection \<open>The download task of AppImageUpdater\<close>

text \<open>
  When the differential download fails, on \<open>linux\<close> the full download runs; on another
  platform the error is dropped and the task goes on to \<open>chmod\<close>.
\<close>

lemma AppImage_task_linux_falls_back:
  assumes "APPIMAGE env = Some oldFile"
    and "differential_download env oldFile updateFile this = (Some e, this1)"
    and "process_platform env = ''linux''"
  shows "AppImage_task env updateFile this
           = (case httpExecutor_download env updateFile
                     (log_to Err ''Cannot download differentially, fallback to full download: '' this1) of
                (Some e', this3) \<Rightarrow> (Some e', this3)
              | (None, this3) \<Rightarrow> chmod updateFile 493 this3)"
  using assms by (simp add: AppImage_task_def)

lemma AppImage_task_elsewhere_drops_error:
  assumes "APPIMAGE env = Some oldFile"
    and "differential_download env oldFile updateFile this = (Some e, this1)"
    and "process_platform env \<noteq> ''linux''"
  shows "AppImage_task env updateFile this
           = chmod updateFile 493
               (log_to Err ''Cannot download differentially, fallback to full download: '' this1)"
  using assms by (simp add: AppImage_task_def)

text \<open>
  Claim C7. On a platform other than \<open>linux\<close> a failure of the differential download is
  to surface. On \<open>darwin\<close>, with a differential download that fails after it has
  written part of the new file, the task succeeds, and \<open>doDownloadUpdate\<close> resolves
  with the partial file as the downloaded update and emits \<open>update-downloaded\<close>.
\<close>

theorem AppImage_task_succeeds_with_partial_file:
  "AppImage_task (example_env ''darwin'') ''/cache/app-updater/pending/temp-app-1.1.0.AppImage''
       example_updater
     = (None,
        (log_to Err ''Cannot download differentially, fallback to full download: '' example_updater)
          \<lparr>files := [''/cache/app-updater/pending/temp-app-1.1.0.AppImage'' \<mapsto> (''partial'', 493)]\<rparr>)
   \<and> fst (AppImage_doDownloadUpdate (example_env ''darwin'') example_file example_update example_updater)
     = Inr [''/cache/app-updater/pending/app-1.1.0.AppImage'']
   \<and> files (snd (snd (AppImage_doDownloadUpdate (example_env ''darwin'') example_file example_update
                        example_updater)))
        ''/cache/app-updater/pending/app-1.1.0.AppImage'' = Some (''partial'', 493)
   \<and> emitted (snd (snd (AppImage_doDownloadUpdate (example_env ''darwin'') example_file example_update
                        example_updater)))
     = [EvUpdateDownloaded \<lparr>version = ''1.1.0'', stagingPercentage = JSUndefined\<rparr>
          ''/cache/app-updater/pending/app-1.1.0.AppImage'']"
  by (simp add: AppImage_task_def AppImage_doDownloadUpdate_def example_defs executor_defs Let_def)

lemma AppImage_task_linux_example:
  "fst (AppImage_doDownloadUpdate (example_env ''linux'') example_file example_update example_updater)
     = Inr [''/cache/app-updater/pending/app-1.1.0.AppImage'']
   \<and> files (snd (snd (AppImage_doDownloadUpdate (example_env ''linux'') example_file example_update
                        example_updater)))
        ''/cache/app-updater/pending/app-1.1.0.AppImage'' = Some (''full'', 493)"
  by (simp add: AppImage_task_def AppImage_doDownloadUpdate_def example_defs executor_defs Let_def)

end
